theory Spec2Isabelle
  imports Main
begin

section \<open>ZenFlow service worker: data model\<close>

text \<open>
  The service worker of \<^verbatim>\<open>sw.js\<close> keeps named caches of responses, routes every
  intercepted request to one of two strategies, and removes the caches of older
  versions when it is activated. The browser platform (the network, the cache storage,
  the worker lifecycle) is not part of the script: the network is a parameter of the
  model, the cache storage and the lifecycle are explicit state.
\<close>

subsection \<open>Strings\<close>

text \<open>\<^verbatim>\<open>String.prototype.startsWith\<close>, \<^verbatim>\<open>endsWith\<close> and \<^verbatim>\<open>includes\<close>
  (\<open>includes_str\<close> here).\<close>

fun startsWith :: "string \<Rightarrow> string \<Rightarrow> bool" where
  "startsWith s [] = True"
| "startsWith [] (p # ps) = False"
| "startsWith (c # cs) (p # ps) = (c = p \<and> startsWith cs ps)"

definition endsWith :: "string \<Rightarrow> string \<Rightarrow> bool" where
  "endsWith s p = startsWith (rev s) (rev p)"

fun includes_str :: "string \<Rightarrow> string \<Rightarrow> bool" where
  "includes_str [] p = startsWith [] p"
| "includes_str (c # cs) p = (startsWith (c # cs) p \<or> includes_str cs p)"

text \<open>
  Header names are compared without regard to the case of ASCII letters, and the value
  of a list header is split at its commas, each part without the spaces and tabs
  around it.
\<close>

definition lower_char :: "char \<Rightarrow> char" where
  "lower_char c =
     (case map_of (zip ''ABCDEFGHIJKLMNOPQRSTUVWXYZ'' ''abcdefghijklmnopqrstuvwxyz'') c of
        Some l \<Rightarrow> l
      | None \<Rightarrow> c)"

definition lower :: "string \<Rightarrow> string" where
  "lower s = map lower_char s"

definition is_space :: "char \<Rightarrow> bool" where
  "is_space c = (c = CHR '' '' \<or> c = CHR 0x09)"

definition trim :: "string \<Rightarrow> string" where
  "trim s = rev (dropWhile is_space (rev (dropWhile is_space s)))"

fun split_commas :: "string \<Rightarrow> string list" where
  "split_commas [] = [[]]"
| "split_commas (c # cs) =
     (if c = CHR '','' then [] # split_commas cs
      else (case split_commas cs of
              [] \<Rightarrow> [[c]]
            | p # ps \<Rightarrow> (c # p) # ps))"

subsection \<open>Constants of the script\<close>

definition CACHE_VERSION :: string where
  "CACHE_VERSION = ''zenflow-v1''"

definition STATIC_ASSETS_CACHE :: string where
  "STATIC_ASSETS_CACHE = CACHE_VERSION @ ''-static''"

definition API_CACHE :: string where
  "API_CACHE = CACHE_VERSION @ ''-api''"

definition CDN_CACHE :: string where
  "CDN_CACHE = CACHE_VERSION @ ''-cdn''"

definition STATIC_ASSETS :: "string list" where
  "STATIC_ASSETS =
     [''./'', ''./index.html'', ''./manifest.json'', ''./icons/icon-192.svg'',
      ''./icons/icon-512.svg'', ''./icons/icon-maskable.svg'']"

definition CDN_RESOURCES :: "string list" where
  "CDN_RESOURCES =
     [''https://cdn.tailwindcss.com'',
      ''https://fonts.googleapis.com/css2?family=Marcellus&family=Quicksand:wght@300;400;500;600;700&display=swap'',
      ''https://cdn.jsdelivr.net/npm/@mediapipe/tasks-vision@0.10.3/+esm'']"

subsection \<open>Requests and responses\<close>

datatype response_type = Basic | Cors | Default | Error | Opaque | Opaqueredirect

record response =
  status :: nat
  statusText :: string
  headers :: "(string \<times> string) list"
  body :: string
  rtype :: response_type

text \<open>The values of the headers of a given name, which is written in lower case.\<close>

definition header_values :: "string \<Rightarrow> (string \<times> string) list \<Rightarrow> string list" where
  "header_values name hs = map snd (filter (\<lambda>h. lower (fst h) = name) hs)"

text \<open>
  \<^verbatim>\<open>new Response(body, init)\<close> with a string as body: a missing \<^verbatim>\<open>status\<close> is
  200, a missing \<^verbatim>\<open>statusText\<close> is empty, the type of a constructed response is
  \<^verbatim>\<open>default\<close>, and a response whose headers give no content type is given that of
  plain text.
\<close>

definition new_Response ::
  "string \<Rightarrow> nat option \<Rightarrow> string option \<Rightarrow> (string \<times> string) list \<Rightarrow> response" where
  "new_Response b st txt hs =
     \<lparr>status = (case st of None \<Rightarrow> 200 | Some n \<Rightarrow> n),
      statusText = (case txt of None \<Rightarrow> [] | Some t \<Rightarrow> t),
      headers = (if header_values ''content-type'' hs = []
                 then hs @ [(''content-type'', ''text/plain;charset=UTF-8'')] else hs),
      body = b, rtype = Default\<rparr>"

text \<open>\<^verbatim>\<open>response.ok\<close>: the status is in the range 200 to 299.\<close>

definition ok :: "response \<Rightarrow> bool" where
  "ok r = (200 \<le> status r \<and> status r \<le> 299)"

text \<open>
  The parts of \<^verbatim>\<open>new URL(request.url)\<close> that the script reads; \<open>href\<close> is the
  absolute URL without its fragment, which neither the network nor a cache looks at:
  it is the key of the request in a cache.
\<close>

record url =
  href :: string
  protocol :: string
  hostname :: string
  pathname :: string
  origin :: string

text \<open>A request: \<open>req_method\<close> is \<^verbatim>\<open>request.method\<close>.\<close>

record request =
  req_method :: string
  url :: url
  destination :: string

subsection \<open>The cache storage\<close>

text \<open>
  A cache maps request keys to stored responses. The cache storage lists the caches
  by name in the order of their creation, the order in which \<^verbatim>\<open>caches.keys()\<close>
  enumerates them and \<^verbatim>\<open>caches.match\<close> searches them. A request carries no
  headers in this model, so a stored entry answers every request of its key: the
  comparison of the headers that a stored \<^verbatim>\<open>Vary\<close> names is left out.
\<close>

type_synonym cache = "(string \<times> response) list"

type_synonym cache_storage = "(string \<times> cache) list"

definition cache_match :: "string \<Rightarrow> cache \<Rightarrow> response option" where
  "cache_match k c = map_of c k"

text \<open>\<^verbatim>\<open>cache.put\<close> replaces the entry of the key.\<close>

definition cache_put :: "string \<Rightarrow> response \<Rightarrow> cache \<Rightarrow> cache" where
  "cache_put k r c = filter (\<lambda>e. fst e \<noteq> k) c @ [(k, r)]"

definition caches_keys :: "cache_storage \<Rightarrow> string list" where
  "caches_keys cs = map fst cs"

text \<open>\<^verbatim>\<open>caches.open(name)\<close> creates the cache when there is none of that name.\<close>

definition caches_open :: "string \<Rightarrow> cache_storage \<Rightarrow> cache_storage" where
  "caches_open n cs = (if n \<in> set (caches_keys cs) then cs else cs @ [(n, [])])"

definition caches_delete :: "string \<Rightarrow> cache_storage \<Rightarrow> cache_storage" where
  "caches_delete n cs = filter (\<lambda>e. fst e \<noteq> n) cs"

text \<open>\<^verbatim>\<open>caches.match(request)\<close>, with no cache name: the first cache, in the order
  of the storage, that holds the key answers.\<close>

fun caches_match :: "string \<Rightarrow> cache_storage \<Rightarrow> response option" where
  "caches_match k [] = None"
| "caches_match k ((n, c) # cs) =
     (case cache_match k c of Some r \<Rightarrow> Some r | None \<Rightarrow> caches_match k cs)"

text \<open>The cache of a given name, and the write \<^verbatim>\<open>cache.put\<close> into it.\<close>

definition store_named :: "string \<Rightarrow> cache_storage \<Rightarrow> cache option" where
  "store_named n cs = map_of cs n"

definition put_in :: "string \<Rightarrow> string \<Rightarrow> response \<Rightarrow> cache_storage \<Rightarrow> cache_storage" where
  "put_in n k r cs = map (\<lambda>e. if fst e = n then (fst e, cache_put k r (snd e)) else e) cs"

section \<open>The activate handler\<close>

text \<open>The test of the activate handler on each cache name.\<close>

definition is_old_cache :: "string \<Rightarrow> bool" where
  "is_old_cache cacheName =
     (\<not> startsWith cacheName CACHE_VERSION \<and>
      (startsWith cacheName ''zenflow-'' \<or> cacheName = ''default-cache''))"

definition pruneStale :: "cache_storage \<Rightarrow> cache_storage" where
  "pruneStale cs =
     fold (\<lambda>cacheName acc. if is_old_cache cacheName then caches_delete cacheName acc else acc)
       (caches_keys cs) cs"

section \<open>The worker and its environment\<close>

datatype js_error = TypeError string

text \<open>
  A network fetch either rejects or resolves; the script guards against a resolved
  value that is no response (\<^verbatim>\<open>!response\<close>), so the resolved value is optional.
\<close>

datatype fetch_result = Rejected js_error | Resolved "response option"

text \<open>
  The environment of the worker: what the network answers for a URL, how a relative
  URL is resolved against the worker's location, the origin of that location, and
  whether the storage refuses to write a key into the cache of a given name (the quota
  is exceeded).
\<close>

record env =
  net :: "string \<Rightarrow> fetch_result"
  resolve :: "string \<Rightarrow> string"
  location_origin :: string
  write_fails :: "string \<Rightarrow> string \<Rightarrow> bool"

datatype lifecycle = Installing | Waiting | Activating | Active

text \<open>
  The state of the worker: the cache storage, the URLs fetched from the network so far
  (oldest first), the lifecycle state and the skip-waiting flag of the worker.
\<close>

record sw =
  caches :: cache_storage
  netlog :: "string list"
  phase :: lifecycle
  skip_waiting_flag :: bool

definition fetch_log :: "string \<Rightarrow> sw \<Rightarrow> sw" where
  "fetch_log u w = w\<lparr>netlog := netlog w @ [u]\<rparr>"

text \<open>
  \<^verbatim>\<open>cache.put\<close> rejects, and writes nothing, when the response has status 206 or a
  \<^verbatim>\<open>Vary\<close> header with the value \<^verbatim>\<open>*\<close>, when the request is not a GET request
  over http or https, and when the storage refuses the write.
\<close>

definition vary_star :: "response \<Rightarrow> bool" where
  "vary_star r =
     (\<exists>v \<in> set (header_values ''vary'' (headers r)). \<exists>f \<in> set (split_commas v). trim f = ''*'')"

definition response_unstorable :: "response \<Rightarrow> bool" where
  "response_unstorable r = (status r = 206 \<or> vary_star r)"

definition request_unstorable :: "request \<Rightarrow> bool" where
  "request_unstorable req =
     (req_method req \<noteq> ''GET'' \<or>
      (protocol (url req) \<noteq> ''http:'' \<and> protocol (url req) \<noteq> ''https:''))"

definition put_url_rejects :: "env \<Rightarrow> string \<Rightarrow> string \<Rightarrow> response \<Rightarrow> bool" where
  "put_url_rejects e cacheName k r = (response_unstorable r \<or> write_fails e cacheName k)"

definition put_rejects :: "env \<Rightarrow> string \<Rightarrow> request \<Rightarrow> response \<Rightarrow> bool" where
  "put_rejects e cacheName req r =
     (request_unstorable req \<or> put_url_rejects e cacheName (href (url req)) r)"

text \<open>
  \<^verbatim>\<open>caches.open(cacheName).then((cache) => { cache.put(request, responseClone); })\<close>:
  the write is detached from the response, and nothing handles its rejection; the model
  performs it at once. The cache is opened, and so created when there is none of that
  name, also when the write is rejected.
\<close>

definition open_and_put :: "env \<Rightarrow> string \<Rightarrow> request \<Rightarrow> response \<Rightarrow> sw \<Rightarrow> sw" where
  "open_and_put e cacheName req r w =
     (let cs = caches_open cacheName (caches w) in
      if put_rejects e cacheName req r then w\<lparr>caches := cs\<rparr>
      else w\<lparr>caches := put_in cacheName (href (url req)) r cs\<rparr>)"

section \<open>The two strategies\<close>

definition offline_html :: response where
  "offline_html =
     new_Response ''<h1>Offline</h1><p>ZenFlow is currently offline. Please check your connection.</p>''
       (Some 503) (Some ''Service Unavailable'') [(''Content-Type'', ''text/html; charset=utf-8'')]"

definition offline_plain :: response where
  "offline_plain =
     new_Response ''Service unavailable - offline'' (Some 503) (Some ''Service Unavailable'') []"

definition placeholder_image :: response where
  "placeholder_image =
     new_Response
       ''<svg xmlns=\"http://www.w3.org/2000/svg\" width=\"100\" height=\"100\"><rect fill=\"#e5e7eb\" width=\"100\" height=\"100\"/></svg>''
       None None [(''Content-Type'', ''image/svg+xml'')]"

text \<open>
  A strategy returns what its promise settles to, \<open>Inl\<close> a rejection and \<open>Inr\<close> the
  value it resolves with, and the state of the worker afterwards.
\<close>

type_synonym outcome = "(js_error + response option) \<times> sw"

definition networkFirstStrategy :: "env \<Rightarrow> request \<Rightarrow> string \<Rightarrow> sw \<Rightarrow> outcome" where
  "networkFirstStrategy e req cacheName w =
     (let k = href (url req); w1 = fetch_log k w in
      case net e k of
        Resolved resp \<Rightarrow>
          (case resp of
             None \<Rightarrow> (Inr None, w1)
           | Some r \<Rightarrow>
               if status r \<noteq> 200 \<or> rtype r = Error then (Inr (Some r), w1)
               else (Inr (Some r), open_and_put e cacheName req r w1))
      | Rejected err \<Rightarrow>
          (case caches_match k (caches w1) of
             Some cachedResponse \<Rightarrow> (Inr (Some cachedResponse), w1)
           | None \<Rightarrow>
               if destination req = ''document'' then
                 (case caches_match (resolve e ''./index.html'') (caches w1) of
                    Some indexResponse \<Rightarrow> (Inr (Some indexResponse), w1)
                  | None \<Rightarrow> (Inr (Some offline_html), w1))
               else (Inr (Some offline_plain), w1)))"

definition cacheFirstStrategy :: "env \<Rightarrow> request \<Rightarrow> string \<Rightarrow> sw \<Rightarrow> outcome" where
  "cacheFirstStrategy e req cacheName w =
     (let k = href (url req) in
      case caches_match k (caches w) of
        Some cachedResponse \<Rightarrow> (Inr (Some cachedResponse), w)
      | None \<Rightarrow>
          (let w1 = fetch_log k w in
           case net e k of
             Resolved resp \<Rightarrow>
               (case resp of
                  None \<Rightarrow> (Inr None, w1)
                | Some r \<Rightarrow>
                    if status r \<noteq> 200 then (Inr (Some r), w1)
                    else (Inr (Some r), open_and_put e cacheName req r w1))
           | Rejected err \<Rightarrow>
               if destination req = ''image'' then (Inr (Some placeholder_image), w1)
               else (Inl err, w1)))"

section \<open>The fetch handler\<close>

datatype strategy = NetworkFirst | CacheFirst

definition is_api :: "url \<Rightarrow> bool" where
  "is_api u =
     (hostname u = ''generativelanguage.googleapis.com'' \<or>
      includes_str (pathname u) ''/api/'' \<or>
      includes_str (hostname u) ''api.'')"

definition is_cdn :: "url \<Rightarrow> bool" where
  "is_cdn u =
     (hostname u = ''cdn.tailwindcss.com'' \<or>
      hostname u = ''fonts.googleapis.com'' \<or>
      hostname u = ''cdn.jsdelivr.net'' \<or>
      hostname u = ''fonts.gstatic.com'')"

definition is_static_asset :: "request \<Rightarrow> bool" where
  "is_static_asset req =
     (destination req = ''image'' \<or>
      destination req = ''font'' \<or>
      destination req = ''style'' \<or>
      destination req = ''script'' \<or>
      endsWith (pathname (url req)) ''.svg'' \<or>
      endsWith (pathname (url req)) ''.png'' \<or>
      endsWith (pathname (url req)) ''.jpg'' \<or>
      endsWith (pathname (url req)) ''.jpeg'' \<or>
      endsWith (pathname (url req)) ''.webp'')"

text \<open>
  The conditional chain of the fetch handler: \<open>None\<close> when the handler returns
  without \<^verbatim>\<open>respondWith\<close>, so that the browser handles the request itself.
\<close>

definition route :: "env \<Rightarrow> request \<Rightarrow> (strategy \<times> string) option" where
  "route e req =
     (if req_method req \<noteq> ''GET'' then None
      else if protocol (url req) \<noteq> ''http:'' \<and> protocol (url req) \<noteq> ''https:'' then None
      else if is_api (url req) then Some (NetworkFirst, API_CACHE)
      else if is_cdn (url req) then Some (CacheFirst, CDN_CACHE)
      else if origin (url req) = location_origin e \<and> is_static_asset req
        then Some (CacheFirst, STATIC_ASSETS_CACHE)
      else if origin (url req) = location_origin e \<and>
              (destination req = ''document'' \<or> endsWith (pathname (url req)) ''manifest.json'')
        then Some (NetworkFirst, STATIC_ASSETS_CACHE)
      else Some (NetworkFirst, STATIC_ASSETS_CACHE))"

definition run_strategy :: "strategy \<Rightarrow> env \<Rightarrow> request \<Rightarrow> string \<Rightarrow> sw \<Rightarrow> outcome" where
  "run_strategy s = (case s of NetworkFirst \<Rightarrow> networkFirstStrategy | CacheFirst \<Rightarrow> cacheFirstStrategy)"

definition fetch_event :: "env \<Rightarrow> request \<Rightarrow> sw \<Rightarrow> outcome option" where
  "fetch_event e req w =
     (case route e req of
        None \<Rightarrow> None
      | Some (s, cacheName) \<Rightarrow> Some (run_strategy s e req cacheName w))"

section \<open>The lifecycle handlers\<close>

text \<open>
  Modelled from the spec: the lifecycle algorithm of the browser, which the script
  drives but does not contain. The states are \<open>Installing\<close>, \<open>Waiting\<close>,
  \<open>Activating\<close> and \<open>Active\<close>; a waiting worker whose skip-waiting signal has been
  raised is forced to activate.
\<close>

definition try_activate :: "sw \<Rightarrow> sw" where
  "try_activate w =
     (if phase w = Waiting \<and> skip_waiting_flag w then w\<lparr>phase := Activating\<rparr> else w)"

text \<open>
  \<^verbatim>\<open>self.skipWaiting()\<close> raises the skip-waiting signal of the worker.
\<close>

definition skipWaiting :: "sw \<Rightarrow> sw" where
  "skipWaiting w = try_activate (w\<lparr>skip_waiting_flag := True\<rparr>)"

text \<open>
  When the promise given to \<^verbatim>\<open>event.waitUntil\<close> by the install handler has settled,
  the worker leaves \<open>Installing\<close> for \<open>Waiting\<close>.
\<close>

definition install_settled :: "sw \<Rightarrow> sw" where
  "install_settled w = try_activate (w\<lparr>phase := Waiting\<rparr>)"

text \<open>
  \<^verbatim>\<open>cache.addAll(STATIC_ASSETS)\<close> fetches every asset and stores all of them, or
  none when one fetch fails or answers with a status that is not ok, or when one write
  is rejected; the handler catches that failure.
\<close>

definition fetched_ok :: "fetch_result \<Rightarrow> response option" where
  "fetched_ok f =
     (case f of
        Rejected err \<Rightarrow> None
      | Resolved resp \<Rightarrow> (case resp of None \<Rightarrow> None | Some r \<Rightarrow> if ok r then Some r else None))"

definition storable :: "env \<Rightarrow> string \<Rightarrow> string \<Rightarrow> response option" where
  "storable e cacheName k =
     (case fetched_ok (net e k) of
        None \<Rightarrow> None
      | Some r \<Rightarrow> if put_url_rejects e cacheName k r then None else Some r)"

definition cache_addAll :: "env \<Rightarrow> string \<Rightarrow> string list \<Rightarrow> sw \<Rightarrow> sw" where
  "cache_addAll e cacheName assets w =
     (let ks = map (resolve e) assets;
          w1 = fold fetch_log ks w
      in if list_all (\<lambda>k. storable e cacheName k \<noteq> None) ks
         then w1\<lparr>caches :=
                fold (\<lambda>k cs. case storable e cacheName k of
                                Some r \<Rightarrow> put_in cacheName k r cs
                              | None \<Rightarrow> cs)
                  ks (caches w1)\<rparr>
         else w1)"

text \<open>
  The CDN resources are fetched one by one; each that answers ok is stored, unless the
  write is rejected, which the handler catches.
\<close>

definition cache_cdn_resource :: "env \<Rightarrow> string \<Rightarrow> string \<Rightarrow> sw \<Rightarrow> sw" where
  "cache_cdn_resource e cacheName u w =
     (let k = resolve e u; w1 = fetch_log k w in
      case storable e cacheName k of
        Some r \<Rightarrow> w1\<lparr>caches := put_in cacheName k r (caches w1)\<rparr>
      | None \<Rightarrow> w1)"

definition install_event :: "env \<Rightarrow> sw \<Rightarrow> sw" where
  "install_event e w =
     (let w1 = w\<lparr>caches := caches_open STATIC_ASSETS_CACHE (caches w)\<rparr>;
          w2 = w1\<lparr>caches := caches_open CDN_CACHE (caches w1)\<rparr>;
          w3 = cache_addAll e STATIC_ASSETS_CACHE STATIC_ASSETS w2;
          w4 = fold (cache_cdn_resource e CDN_CACHE) CDN_RESOURCES w3
      in install_settled (skipWaiting w4))"

text \<open>
  The activate handler removes the old caches and claims the clients; the worker is
  active when its promise has settled.
\<close>

definition activate_event :: "sw \<Rightarrow> sw" where
  "activate_event w = w\<lparr>caches := pruneStale (caches w), phase := Active\<rparr>"

text \<open>
  The message handler reads \<^verbatim>\<open>event.data.type\<close>; \<open>None\<close> is a message without
  data or without a type.
\<close>

definition message_event :: "string option \<Rightarrow> sw \<Rightarrow> sw" where
  "message_event data_type w =
     (let w1 = (if data_type = Some ''SKIP_WAITING'' then skipWaiting w else w)
      in if data_type = Some ''CLEAR_CACHE''
         then w1\<lparr>caches := fold caches_delete (caches_keys (caches w1)) (caches w1)\<rparr>
         else w1)"

section \<open>Example inputs\<close>

text \<open>
  A cache storage with a cache of an older version, the cache \<^verbatim>\<open>default-cache\<close>,
  a cache of another application and a cache of the current version.
\<close>

definition ex_storage :: cache_storage where
  "ex_storage =
     [(''zenflow-v0-static'', []), (''default-cache'', []), (''other-app'', []),
      (''zenflow-v1-static'', [])]"

text \<open>
  Two stored responses that differ, two fresh ones, of which one has a \<^verbatim>\<open>Vary\<close>
  header with the value \<^verbatim>\<open>*\<close>, and one that is not found.
\<close>

definition ex_cached :: response where
  "ex_cached = \<lparr>status = 200, statusText = ''OK'', headers = [], body = ''cached'', rtype = Basic\<rparr>"

definition ex_foreign :: response where
  "ex_foreign = \<lparr>status = 200, statusText = ''OK'', headers = [], body = ''foreign'', rtype = Basic\<rparr>"

definition ex_fresh :: response where
  "ex_fresh = \<lparr>status = 200, statusText = ''OK'', headers = [], body = ''fresh'', rtype = Basic\<rparr>"

definition ex_vary_star :: response where
  "ex_vary_star =
     \<lparr>status = 200, statusText = ''OK'', headers = [(''Vary'', ''Accept-Encoding, *'')],
      body = ''fresh'', rtype = Basic\<rparr>"

definition ex_404 :: response where
  "ex_404 = \<lparr>status = 404, statusText = ''Not Found'', headers = [], body = ''missing'', rtype = Basic\<rparr>"

text \<open>
  The worker is served from \<^verbatim>\<open>https://zenflow.example\<close>; a relative URL is
  resolved against that location and an absolute URL without a path gets the path
  \<^verbatim>\<open>/\<close>. The network is down, or answers every request with status 404, or with
  status 200, or with a response of status 200 that varies on everything; or the
  network answers with status 200 and the storage is full.
\<close>

definition ex_resolve :: "string \<Rightarrow> string" where
  "ex_resolve u =
     (if startsWith u ''./'' then ''https://zenflow.example/'' @ drop 2 u
      else if startsWith u ''https://'' \<and> \<not> includes_str (drop 8 u) ''/'' then u @ ''/''
      else u)"

definition ex_offline :: env where
  "ex_offline =
     \<lparr>net = (\<lambda>u. Rejected (TypeError ''Failed to fetch'')), resolve = ex_resolve,
      location_origin = ''https://zenflow.example'', write_fails = (\<lambda>n k. False)\<rparr>"

definition ex_net_404 :: env where
  "ex_net_404 =
     \<lparr>net = (\<lambda>u. Resolved (Some ex_404)), resolve = ex_resolve,
      location_origin = ''https://zenflow.example'', write_fails = (\<lambda>n k. False)\<rparr>"

definition ex_online :: env where
  "ex_online =
     \<lparr>net = (\<lambda>u. Resolved (Some ex_fresh)), resolve = ex_resolve,
      location_origin = ''https://zenflow.example'', write_fails = (\<lambda>n k. False)\<rparr>"

definition ex_net_vary :: env where
  "ex_net_vary =
     \<lparr>net = (\<lambda>u. Resolved (Some ex_vary_star)), resolve = ex_resolve,
      location_origin = ''https://zenflow.example'', write_fails = (\<lambda>n k. False)\<rparr>"

definition ex_full :: env where
  "ex_full =
     \<lparr>net = (\<lambda>u. Resolved (Some ex_fresh)), resolve = ex_resolve,
      location_origin = ''https://zenflow.example'', write_fails = (\<lambda>n k. True)\<rparr>"

text \<open>
  An image of the application, its start page, and an image on a CDN host whose path
  has an API segment.
\<close>

definition ex_logo :: request where
  "ex_logo =
     \<lparr>req_method = ''GET'',
      url = \<lparr>href = ''https://zenflow.example/logo.png'', protocol = ''https:'',
             hostname = ''zenflow.example'', pathname = ''/logo.png'',
             origin = ''https://zenflow.example''\<rparr>,
      destination = ''image''\<rparr>"

definition ex_page :: request where
  "ex_page =
     \<lparr>req_method = ''GET'',
      url = \<lparr>href = ''https://zenflow.example/'', protocol = ''https:'',
             hostname = ''zenflow.example'', pathname = ''/'',
             origin = ''https://zenflow.example''\<rparr>,
      destination = ''document''\<rparr>"

definition ex_cdn_api :: request where
  "ex_cdn_api =
     \<lparr>req_method = ''GET'',
      url = \<lparr>href = ''https://cdn.jsdelivr.net/api/x.png'', protocol = ''https:'',
             hostname = ''cdn.jsdelivr.net'', pathname = ''/api/x.png'',
             origin = ''https://cdn.jsdelivr.net''\<rparr>,
      destination = ''image''\<rparr>"

text \<open>Worker states: a worker that starts to install, with the given cache storage.\<close>

definition ex_worker :: "cache_storage \<Rightarrow> sw" where
  "ex_worker cs = \<lparr>caches = cs, netlog = [], phase = Installing, skip_waiting_flag = False\<rparr>"

text \<open>
  Cache storages in which another application keeps a cache of its own beside the
  static cache of the worker, created before it or after it; a worker that waits.
\<close>

definition ex_foreign_only :: cache_storage where
  "ex_foreign_only =
     [(''other-app'', [(''https://zenflow.example/logo.png'', ex_foreign)]),
      (''zenflow-v1-static'', [])]"

definition ex_foreign_after :: cache_storage where
  "ex_foreign_after =
     [(''zenflow-v1-static'', []),
      (''other-app'', [(''https://zenflow.example/logo.png'', ex_foreign)])]"

definition ex_static_second :: cache_storage where
  "ex_static_second =
     [(''other-app'', []),
      (''zenflow-v1-static'', [(''https://zenflow.example/logo.png'', ex_cached)])]"

definition ex_static_only :: cache_storage where
  "ex_static_only = [(''zenflow-v1-static'', [(''https://zenflow.example/logo.png'', ex_cached)])]"

definition ex_shadowed :: cache_storage where
  "ex_shadowed =
     [(''other-app'', [(''https://zenflow.example/logo.png'', ex_foreign)]),
      (''zenflow-v1-static'', [(''https://zenflow.example/logo.png'', ex_cached)])]"

definition ex_with_index :: cache_storage where
  "ex_with_index = [(''zenflow-v1-static'', [(''https://zenflow.example/index.html'', ex_cached)])]"

definition ex_foreign_page :: cache_storage where
  "ex_foreign_page =
     [(''other-app'', [(''https://zenflow.example/'', ex_foreign)]), (''zenflow-v1-static'', [])]"

definition ex_waiting :: sw where
  "ex_waiting = \<lparr>caches = [], netlog = [], phase = Waiting, skip_waiting_flag = False\<rparr>"

section \<open>Properties of the string functions\<close>

lemma startsWith_iff: "startsWith s p \<longleftrightarrow> (\<exists>t. s = p @ t)"
  by (induction s p rule: startsWith.induct) auto

lemma endsWith_iff: "endsWith s p \<longleftrightarrow> (\<exists>t. s = t @ p)"
  unfolding endsWith_def startsWith_iff
  by (metis rev_append rev_rev_ident)

lemma includes_str_iff: "includes_str s p \<longleftrightarrow> (\<exists>a b. s = a @ p @ b)"
proof (induction s)
  case Nil
  then show ?case by (cases p) auto
next
  case (Cons c cs)
  show ?case
  proof
    assume "includes_str (c # cs) p"
    then consider "startsWith (c # cs) p" | "includes_str cs p" by auto
    then show "\<exists>a b. c # cs = a @ p @ b"
    proof cases
      case 1
      then obtain t where "c # cs = p @ t" by (auto simp: startsWith_iff)
      then have "c # cs = [] @ p @ t" by simp
      then show ?thesis by blast
    next
      case 2
      then obtain a b where "cs = a @ p @ b" using Cons.IH by blast
      then have "c # cs = (c # a) @ p @ b" by simp
      then show ?thesis by blast
    qed
  next
    assume "\<exists>a b. c # cs = a @ p @ b"
    then obtain a b where ab: "c # cs = a @ p @ b" by blast
    show "includes_str (c # cs) p"
    proof (cases a)
      case Nil
      with ab have "startsWith (c # cs) p" by (auto simp: startsWith_iff)
      then show ?thesis by simp
    next
      case (Cons x a')
      with ab have "cs = a' @ p @ b" by simp
      then have "includes_str cs p" using Cons.IH by blast
      then show ?thesis by simp
    qed
  qed
qed


section \<open>The activate handler removes the old caches\<close>

lemma pruneStale_fold:
  "fold (\<lambda>cacheName acc. if is_old_cache cacheName then caches_delete cacheName acc else acc) ns cs
     = filter (\<lambda>e. \<not> (fst e \<in> set ns \<and> is_old_cache (fst e))) cs"
proof (induction ns arbitrary: cs)
  case Nil
  then show ?case by simp
next
  case (Cons n ns)
  show ?case
  proof (cases "is_old_cache n")
    case True
    have "filter (\<lambda>e. \<not> (fst e \<in> set ns \<and> is_old_cache (fst e))) (caches_delete n cs)
            = filter (\<lambda>e. \<not> (fst e \<in> set (n # ns) \<and> is_old_cache (fst e))) cs"
      unfolding caches_delete_def filter_filter using True
      by (intro filter_cong) auto
    with True show ?thesis by (simp add: Cons.IH)
  next
    case False
    have "filter (\<lambda>e. \<not> (fst e \<in> set ns \<and> is_old_cache (fst e))) cs
            = filter (\<lambda>e. \<not> (fst e \<in> set (n # ns) \<and> is_old_cache (fst e))) cs"
      using False by (intro filter_cong) auto
    with False show ?thesis by (simp add: Cons.IH)
  qed
qed

lemma pruneStale_filter: "pruneStale cs = filter (\<lambda>e. \<not> is_old_cache (fst e)) cs"
  unfolding pruneStale_def pruneStale_fold caches_keys_def
  by (rule filter_cong) auto

lemma map_of_filter_fst:
  "map_of (filter (\<lambda>e. P (fst e)) cs) n = (if P n then map_of cs n else None)"
  by (induction cs) auto

lemma startsWith_append: "startsWith n (p @ q) \<Longrightarrow> startsWith n p"
  by (auto simp: startsWith_iff)

lemma pruneStale_keys:
  "set (caches_keys (pruneStale cs)) = {n \<in> set (caches_keys cs). \<not> is_old_cache n}"
  by (auto simp: pruneStale_filter caches_keys_def)

lemma pruneStale_store:
  "store_named n (pruneStale cs) = (if is_old_cache n then None else store_named n cs)"
  using map_of_filter_fst [of "\<lambda>n. \<not> is_old_cache n" cs n]
  by (simp add: pruneStale_filter store_named_def)


text \<open>
  Claim C1, as the code has it. For every cache name present at activation: the cache
  is deleted when its name is \<^verbatim>\<open>default-cache\<close>, or starts with \<^verbatim>\<open>zenflow-\<close>
  without starting with the current version string; the cache is kept, with its
  contents unchanged, when its name starts with the current version followed by a
  hyphen, or when it neither starts with \<^verbatim>\<open>zenflow-\<close> nor is \<^verbatim>\<open>default-cache\<close>.
\<close>

theorem pruneStale_amended:
  assumes "n \<in> set (caches_keys cs)"
  shows "((n = ''default-cache'' \<or> (startsWith n ''zenflow-'' \<and> \<not> startsWith n CACHE_VERSION))
            \<longrightarrow> n \<notin> set (caches_keys (pruneStale cs))) \<and>
         ((startsWith n (CACHE_VERSION @ ''-'') \<or> (\<not> startsWith n ''zenflow-'' \<and> n \<noteq> ''default-cache''))
            \<longrightarrow> n \<in> set (caches_keys (pruneStale cs)) \<and>
                store_named n (pruneStale cs) = store_named n cs)"
proof (intro conjI impI)
  assume "n = ''default-cache'' \<or> (startsWith n ''zenflow-'' \<and> \<not> startsWith n CACHE_VERSION)"
  then have "is_old_cache n"
    by (auto simp: is_old_cache_def CACHE_VERSION_def)
  then show "n \<notin> set (caches_keys (pruneStale cs))"
    by (simp add: pruneStale_keys)
next
  assume a: "startsWith n (CACHE_VERSION @ ''-'') \<or> (\<not> startsWith n ''zenflow-'' \<and> n \<noteq> ''default-cache'')"
  then have keep: "\<not> is_old_cache n"
    using startsWith_append [of n CACHE_VERSION "''-''"] by (auto simp: is_old_cache_def)
  from keep assms show "n \<in> set (caches_keys (pruneStale cs))"
    by (simp add: pruneStale_keys)
  from keep show "store_named n (pruneStale cs) = store_named n cs"
    by (simp add: pruneStale_store)
qed

theorem pruneStale_amended_witness:
  "''zenflow-v0-static'' \<notin> set (caches_keys (pruneStale ex_storage)) \<and>
   ''default-cache'' \<notin> set (caches_keys (pruneStale ex_storage)) \<and>
   ''zenflow-v1-static'' \<in> set (caches_keys (pruneStale ex_storage)) \<and>
   store_named ''zenflow-v1-static'' (pruneStale ex_storage) = store_named ''zenflow-v1-static'' ex_storage \<and>
   ''other-app'' \<in> set (caches_keys (pruneStale ex_storage)) \<and>
   store_named ''other-app'' (pruneStale ex_storage) = store_named ''other-app'' ex_storage"
  using pruneStale_amended [of "''zenflow-v0-static''" ex_storage]
    pruneStale_amended [of "''default-cache''" ex_storage]
    pruneStale_amended [of "''zenflow-v1-static''" ex_storage]
    pruneStale_amended [of "''other-app''" ex_storage]
  by (simp add: ex_storage_def caches_keys_def CACHE_VERSION_def)

text \<open>
  Claim C1 as stated fails: \<^verbatim>\<open>default-cache\<close> does not carry the prefix
  \<^verbatim>\<open>zenflow-\<close> of the application, and the activate handler deletes it.
\<close>

theorem pruneStale_default_cache_counterexample:
  "''default-cache'' \<in> set (caches_keys ex_storage) \<and>
   \<not> startsWith ''default-cache'' ''zenflow-'' \<and>
   ''default-cache'' \<notin> set (caches_keys (pruneStale ex_storage))"
  by (simp add: ex_storage_def caches_keys_def pruneStale_def is_old_cache_def caches_delete_def CACHE_VERSION_def)

section \<open>The lookup of the strategies\<close>

text \<open>
  Both strategies look a request up with \<^verbatim>\<open>caches.match(request)\<close>, which names no
  cache: the caches of the storage are searched in order and the first that holds the
  key answers.
\<close>

lemma caches_match_first:
  assumes "\<forall>p \<in> set pre. cache_match k (snd p) = None"
  shows "caches_match k (pre @ cs) = caches_match k cs"
  using assms by (induction pre) auto

lemma caches_match_at:
  assumes "\<forall>p \<in> set pre. cache_match k (snd p) = None" and "cache_match k c = Some r"
  shows "caches_match k (pre @ (m, c) # post) = Some r"
  using assms by (simp add: caches_match_first)

lemma caches_match_None:
  "caches_match k cs = None \<longleftrightarrow> (\<forall>p \<in> set cs. cache_match k (snd p) = None)"
  by (induction cs) (auto split: option.splits)

lemma cacheFirst_hit:
  "caches_match (href (url req)) (caches w) = Some r \<Longrightarrow>
     cacheFirstStrategy e req cacheName w = (Inr (Some r), w)"
  by (simp add: cacheFirstStrategy_def)

lemma networkFirst_offline_hit:
  "net e (href (url req)) = Rejected err \<Longrightarrow>
   caches_match (href (url req)) (caches w) = Some r \<Longrightarrow>
     networkFirstStrategy e req cacheName w = (Inr (Some r), fetch_log (href (url req)) w)"
  by (simp add: networkFirstStrategy_def fetch_log_def)

text \<open>
  Claim C2, as the code has it. Whatever the cache name given to a strategy, its lookup
  goes through every cache of the storage in order: when the first cache that holds the
  key of the request holds the response \<open>r\<close>, the cache-first strategy returns \<open>r\<close>
  without a fetch, and the network-first strategy returns \<open>r\<close> when the network fails.
\<close>

theorem lookup_searches_every_store:
  assumes "caches w = pre @ (m, c) # post"
    and "\<forall>p \<in> set pre. cache_match (href (url req)) (snd p) = None"
    and "cache_match (href (url req)) c = Some r"
  shows "cacheFirstStrategy e req storeName w = (Inr (Some r), w) \<and>
         (\<forall>err. net e (href (url req)) = Rejected err \<longrightarrow>
            networkFirstStrategy e req storeName w = (Inr (Some r), fetch_log (href (url req)) w))"
proof -
  have "caches_match (href (url req)) (caches w) = Some r"
    using assms by (simp add: caches_match_at)
  then show ?thesis
    by (simp add: cacheFirst_hit networkFirst_offline_hit)
qed

text \<open>
  At a storage where the static cache is empty and the cache of another application,
  created after it, holds the key; the strategies are given the static cache.
\<close>

theorem lookup_searches_every_store_witness:
  "cacheFirstStrategy ex_offline ex_logo STATIC_ASSETS_CACHE (ex_worker ex_foreign_after)
     = (Inr (Some ex_foreign), ex_worker ex_foreign_after) \<and>
   networkFirstStrategy ex_offline ex_logo STATIC_ASSETS_CACHE (ex_worker ex_foreign_after)
     = (Inr (Some ex_foreign), fetch_log ''https://zenflow.example/logo.png'' (ex_worker ex_foreign_after))"
  using lookup_searches_every_store [of "ex_worker ex_foreign_after" "[(''zenflow-v1-static'', [])]"
      "''other-app''" "[(''https://zenflow.example/logo.png'', ex_foreign)]" "[]"
      ex_logo ex_foreign ex_offline STATIC_ASSETS_CACHE]
  by (simp add: ex_worker_def ex_foreign_after_def ex_logo_def ex_offline_def cache_match_def)

text \<open>
  Claim C2 as stated fails: the named cache is empty and the key is only in a cache of
  another name, yet both strategies return the stored entry instead of treating the
  lookup as a miss.
\<close>

theorem lookup_named_store_counterexample:
  "store_named STATIC_ASSETS_CACHE (caches (ex_worker ex_foreign_only)) = Some [] \<and>
   cacheFirstStrategy ex_offline ex_logo STATIC_ASSETS_CACHE (ex_worker ex_foreign_only)
     = (Inr (Some ex_foreign), ex_worker ex_foreign_only) \<and>
   fst (networkFirstStrategy ex_offline ex_logo STATIC_ASSETS_CACHE (ex_worker ex_foreign_only))
     = Inr (Some ex_foreign)"
  by (simp add: store_named_def STATIC_ASSETS_CACHE_def CACHE_VERSION_def ex_worker_def
      ex_foreign_only_def cacheFirstStrategy_def networkFirstStrategy_def ex_logo_def
      ex_offline_def cache_match_def fetch_log_def Let_def)

section \<open>The cache-first strategy\<close>

text \<open>
  Claim C4, as the code has it. A request that the fetch handler routes to the
  cache-first strategy, and whose key is in the target cache, is answered without a
  fetch and without any change of the state by a stored response: the one that the
  first cache holding the key has, which is the entry of the target cache when no
  earlier cache holds the key.
\<close>

theorem cacheFirst_routed_hit:
  assumes "route e req = Some (CacheFirst, n)"
    and "caches w = pre @ (n, c) # post"
    and "cache_match (href (url req)) c = Some r"
  shows "\<exists>r'. fetch_event e req w = Some (Inr (Some r'), w) \<and>
              caches_match (href (url req)) (caches w) = Some r' \<and>
              ((\<forall>p \<in> set pre. cache_match (href (url req)) (snd p) = None) \<longrightarrow> r' = r)"
proof -
  have "(n, c) \<in> set (caches w)" using assms(2) by simp
  then have "caches_match (href (url req)) (caches w) \<noteq> None"
    using assms(3) caches_match_None [of "href (url req)" "caches w"] by fastforce
  then obtain r' where hit: "caches_match (href (url req)) (caches w) = Some r'" by blast
  have "fetch_event e req w = Some (Inr (Some r'), w)"
    using assms(1) hit by (simp add: fetch_event_def run_strategy_def cacheFirst_hit)
  moreover have "r' = r" if "\<forall>p \<in> set pre. cache_match (href (url req)) (snd p) = None"
    using that assms(2,3) hit by (simp add: caches_match_at)
  ultimately show ?thesis using hit by blast
qed

text \<open>
  At a storage where the static cache holds the image and the cache created before it
  does not.
\<close>

theorem cacheFirst_routed_hit_witness:
  "fetch_event ex_online ex_logo (ex_worker ex_static_second)
     = Some (Inr (Some ex_cached), ex_worker ex_static_second)"
  using cacheFirst_routed_hit [of ex_online ex_logo STATIC_ASSETS_CACHE "ex_worker ex_static_second"
      "[(''other-app'', [])]" "[(''https://zenflow.example/logo.png'', ex_cached)]" "[]" ex_cached]
  by (simp add: route_def ex_online_def ex_logo_def is_api_def is_cdn_def is_static_asset_def
      STATIC_ASSETS_CACHE_def CACHE_VERSION_def ex_worker_def ex_static_second_def cache_match_def)

text \<open>
  Claim C4 as stated fails: the key is in the target cache, and the response returned is
  the different one that an earlier cache holds for the same key.
\<close>

theorem cacheFirst_other_store_counterexample:
  "route ex_online ex_logo = Some (CacheFirst, STATIC_ASSETS_CACHE) \<and>
   store_named STATIC_ASSETS_CACHE (caches (ex_worker ex_shadowed))
     = Some [(href (url ex_logo), ex_cached)] \<and>
   fetch_event ex_online ex_logo (ex_worker ex_shadowed)
     = Some (Inr (Some ex_foreign), ex_worker ex_shadowed) \<and>
   ex_foreign \<noteq> ex_cached"
  by (simp add: route_def ex_online_def ex_logo_def is_api_def is_cdn_def is_static_asset_def
      STATIC_ASSETS_CACHE_def CACHE_VERSION_def ex_worker_def ex_shadowed_def cache_match_def
      store_named_def fetch_event_def run_strategy_def cacheFirstStrategy_def ex_foreign_def
      ex_cached_def Let_def)

text \<open>
  Claim C10. When the lookup of the cache-first strategy hits, the cache storage after
  the request is the one before it.
\<close>

theorem cacheFirst_hit_no_mutation:
  assumes "caches_match (href (url req)) (caches w) = Some r"
  shows "caches (snd (cacheFirstStrategy e req storeName w)) = caches w"
  using assms by (simp add: cacheFirst_hit)

text \<open>At the storage that has the static cache alone, which holds the image.\<close>

theorem cacheFirst_hit_no_mutation_witness:
  "caches (snd (cacheFirstStrategy ex_online ex_logo STATIC_ASSETS_CACHE (ex_worker ex_static_only)))
     = ex_static_only"
  using cacheFirst_hit_no_mutation [of ex_logo "ex_worker ex_static_only" ex_cached ex_online
      STATIC_ASSETS_CACHE]
  by (simp add: ex_worker_def ex_static_only_def ex_logo_def cache_match_def)

text \<open>
  Claim C3, as the code has it. When the lookup of the cache-first strategy misses: if
  the fetch fails, an image request is answered with the placeholder image and any other
  request is rejected with the error of the fetch; if the fetch answers with a status
  other than 200, that response is returned as it is, whatever the resource type. The
  storage is unchanged in both cases.
\<close>

theorem cacheFirst_miss_failure:
  assumes "caches_match (href (url req)) (caches w) = None"
  shows "(\<forall>err. net e (href (url req)) = Rejected err \<longrightarrow>
            cacheFirstStrategy e req storeName w =
              (if destination req = ''image'' then Inr (Some placeholder_image) else Inl err,
               fetch_log (href (url req)) w)) \<and>
         (\<forall>r. net e (href (url req)) = Resolved (Some r) \<and> status r \<noteq> 200 \<longrightarrow>
            cacheFirstStrategy e req storeName w = (Inr (Some r), fetch_log (href (url req)) w))"
  using assms by (simp add: cacheFirstStrategy_def Let_def)

text \<open>
  With an empty storage: an image and a page when the network is down, and an image
  when the network answers 404.
\<close>

theorem cacheFirst_miss_failure_witness:
  "cacheFirstStrategy ex_offline ex_logo STATIC_ASSETS_CACHE (ex_worker [])
     = (Inr (Some placeholder_image), fetch_log ''https://zenflow.example/logo.png'' (ex_worker [])) \<and>
   cacheFirstStrategy ex_offline ex_page STATIC_ASSETS_CACHE (ex_worker [])
     = (Inl (TypeError ''Failed to fetch''), fetch_log ''https://zenflow.example/'' (ex_worker [])) \<and>
   cacheFirstStrategy ex_net_404 ex_logo STATIC_ASSETS_CACHE (ex_worker [])
     = (Inr (Some ex_404), fetch_log ''https://zenflow.example/logo.png'' (ex_worker []))"
  using cacheFirst_miss_failure [of ex_logo "ex_worker []" ex_offline STATIC_ASSETS_CACHE]
    cacheFirst_miss_failure [of ex_page "ex_worker []" ex_offline STATIC_ASSETS_CACHE]
    cacheFirst_miss_failure [of ex_logo "ex_worker []" ex_net_404 STATIC_ASSETS_CACHE]
  by (simp add: ex_worker_def ex_logo_def ex_page_def ex_offline_def ex_net_404_def ex_404_def)

text \<open>
  Claim C3 as stated fails: an image request that misses and whose fetch answers with
  status 404 gets that response, not the placeholder image.
\<close>

theorem cacheFirst_image_404_counterexample:
  "destination ex_logo = ''image'' \<and>
   caches_match (href (url ex_logo)) (caches (ex_worker [])) = None \<and>
   net ex_net_404 (href (url ex_logo)) = Resolved (Some ex_404) \<and>
   fst (cacheFirstStrategy ex_net_404 ex_logo STATIC_ASSETS_CACHE (ex_worker [])) = Inr (Some ex_404) \<and>
   ex_404 \<noteq> placeholder_image"
  by (simp add: ex_worker_def ex_logo_def ex_net_404_def ex_404_def cacheFirstStrategy_def
      Let_def placeholder_image_def new_Response_def)

text \<open>
  Claim C9. An image request whose lookup misses and whose fetch fails is answered with
  the placeholder image, a response of status 200 and content type
  \<^verbatim>\<open>image/svg+xml\<close>.
\<close>

theorem placeholder_image_response:
  assumes "destination req = ''image''"
    and "caches_match (href (url req)) (caches w) = None"
    and "net e (href (url req)) = Rejected err"
  shows "fst (cacheFirstStrategy e req storeName w) = Inr (Some placeholder_image) \<and>
         status placeholder_image = 200 \<and>
         map_of (headers placeholder_image) ''Content-Type'' = Some ''image/svg+xml''"
  using assms
  by (simp add: cacheFirstStrategy_def Let_def placeholder_image_def new_Response_def)

text \<open>At the image of the application, with an empty storage and the network down.\<close>

theorem placeholder_image_response_witness:
  "fst (cacheFirstStrategy ex_offline ex_logo STATIC_ASSETS_CACHE (ex_worker []))
     = Inr (Some placeholder_image) \<and>
   status placeholder_image = 200 \<and>
   map_of (headers placeholder_image) ''Content-Type'' = Some ''image/svg+xml''"
  using placeholder_image_response [of ex_logo "ex_worker []" ex_offline "TypeError ''Failed to fetch''"
      STATIC_ASSETS_CACHE]
  by (simp add: ex_worker_def ex_logo_def ex_offline_def)

section \<open>The network-first strategy\<close>

lemma cache_match_put: "cache_match k (cache_put k r c) = Some r"
proof -
  have "map_of (filter (\<lambda>e. fst e \<noteq> k) c) k = None"
    by (induction c) auto
  then show ?thesis
    by (simp add: cache_match_def cache_put_def map_add_def)
qed

lemma store_named_put_in:
  "store_named n (put_in n k r cs) = map_option (cache_put k r) (store_named n cs)"
  unfolding store_named_def put_in_def
  by (induction cs) auto

lemma store_named_open: "store_named n (caches_open n cs) \<noteq> None"
proof (cases "n \<in> set (caches_keys cs)")
  case True
  then have "n \<in> fst ` set cs" by (simp add: caches_keys_def)
  then show ?thesis
    using True by (simp add: caches_open_def store_named_def map_of_eq_None_iff)
next
  case False
  then have "map_of cs n = None"
    by (simp add: caches_keys_def map_of_eq_None_iff)
  then show ?thesis
    using False by (simp add: caches_open_def store_named_def map_add_def)
qed

lemma open_and_put_stored:
  assumes "\<not> put_rejects e n req r"
  shows "\<exists>c. store_named n (caches (open_and_put e n req r w)) = Some c \<and>
             cache_match (href (url req)) c = Some r"
proof -
  obtain c0 where "store_named n (caches_open n (caches w)) = Some c0"
    using store_named_open [of n "caches w"] by blast
  then have "store_named n (caches (open_and_put e n req r w))
               = Some (cache_put (href (url req)) r c0)"
    using assms by (simp add: open_and_put_def store_named_put_in)
  then show ?thesis by (simp add: cache_match_put)
qed

lemma open_and_put_rejected:
  "put_rejects e n req r \<Longrightarrow> caches (open_and_put e n req r w) = caches_open n (caches w)"
  by (simp add: open_and_put_def)

text \<open>
  Claim C5, as the code has it. When the fetch of the network-first strategy resolves
  with a response of status 200 whose type is not \<^verbatim>\<open>error\<close>, the strategy returns
  that response; if \<^verbatim>\<open>cache.put\<close> accepts the write, the named cache then holds an
  entry for the key of the request whose body is the fetched body; if it rejects the
  write, the storage is the one before the request with the named cache opened, so no
  entry is stored. When the response has another status or the type \<^verbatim>\<open>error\<close>, the
  strategy returns it as it is and the storage is unchanged.
\<close>

theorem networkFirst_success:
  assumes "net e (href (url req)) = Resolved (Some r)"
  shows "(status r = 200 \<and> rtype r \<noteq> Error \<longrightarrow>
            fst (networkFirstStrategy e req storeName w) = Inr (Some r) \<and>
            (\<not> put_rejects e storeName req r \<longrightarrow>
               (\<exists>c s. store_named storeName (caches (snd (networkFirstStrategy e req storeName w))) = Some c \<and>
                      cache_match (href (url req)) c = Some s \<and> body s = body r)) \<and>
            (put_rejects e storeName req r \<longrightarrow>
               caches (snd (networkFirstStrategy e req storeName w)) = caches_open storeName (caches w))) \<and>
         (status r \<noteq> 200 \<or> rtype r = Error \<longrightarrow>
            fst (networkFirstStrategy e req storeName w) = Inr (Some r) \<and>
            caches (snd (networkFirstStrategy e req storeName w)) = caches w)"
proof (intro conjI impI)
  assume c: "status r = 200 \<and> rtype r \<noteq> Error"
  then have run: "networkFirstStrategy e req storeName w =
      (Inr (Some r), open_and_put e storeName req r (fetch_log (href (url req)) w))"
    using assms by (simp add: networkFirstStrategy_def Let_def)
  show "fst (networkFirstStrategy e req storeName w) = Inr (Some r)"
    by (simp add: run)
  show "\<exists>c s. store_named storeName (caches (snd (networkFirstStrategy e req storeName w))) = Some c \<and>
          cache_match (href (url req)) c = Some s \<and> body s = body r"
    if "\<not> put_rejects e storeName req r"
    using open_and_put_stored [OF that, of "fetch_log (href (url req)) w"]
    by (auto simp: run)
  show "caches (snd (networkFirstStrategy e req storeName w)) = caches_open storeName (caches w)"
    if "put_rejects e storeName req r"
    using that by (simp add: run open_and_put_rejected fetch_log_def)
next
  assume c: "status r \<noteq> 200 \<or> rtype r = Error"
  then have run: "networkFirstStrategy e req storeName w = (Inr (Some r), fetch_log (href (url req)) w)"
    using assms by (auto simp: networkFirstStrategy_def Let_def)
  show "fst (networkFirstStrategy e req storeName w) = Inr (Some r)"
    by (simp add: run)
  show "caches (snd (networkFirstStrategy e req storeName w)) = caches w"
    by (simp add: run fetch_log_def)
qed

text \<open>
  At the start page with an empty storage: when the network answers 200 and the write is
  accepted, when the write is rejected because the storage is full, and when the network
  answers 404.
\<close>

theorem networkFirst_success_witness:
  "fst (networkFirstStrategy ex_online ex_page STATIC_ASSETS_CACHE (ex_worker [])) = Inr (Some ex_fresh) \<and>
   (\<exists>c s. store_named STATIC_ASSETS_CACHE
             (caches (snd (networkFirstStrategy ex_online ex_page STATIC_ASSETS_CACHE (ex_worker [])))) = Some c \<and>
          cache_match (href (url ex_page)) c = Some s \<and> body s = body ex_fresh) \<and>
   fst (networkFirstStrategy ex_full ex_page STATIC_ASSETS_CACHE (ex_worker [])) = Inr (Some ex_fresh) \<and>
   caches (snd (networkFirstStrategy ex_full ex_page STATIC_ASSETS_CACHE (ex_worker [])))
     = [(STATIC_ASSETS_CACHE, [])] \<and>
   fst (networkFirstStrategy ex_net_404 ex_page STATIC_ASSETS_CACHE (ex_worker [])) = Inr (Some ex_404) \<and>
   caches (snd (networkFirstStrategy ex_net_404 ex_page STATIC_ASSETS_CACHE (ex_worker []))) = []"
  using networkFirst_success [of ex_online ex_page ex_fresh STATIC_ASSETS_CACHE "ex_worker []"]
    networkFirst_success [of ex_full ex_page ex_fresh STATIC_ASSETS_CACHE "ex_worker []"]
    networkFirst_success [of ex_net_404 ex_page ex_404 STATIC_ASSETS_CACHE "ex_worker []"]
  by (simp add: ex_online_def ex_full_def ex_net_404_def ex_fresh_def ex_404_def ex_worker_def
      ex_page_def put_rejects_def put_url_rejects_def request_unstorable_def
      response_unstorable_def vary_star_def header_values_def caches_open_def caches_keys_def)

text \<open>
  Claim C5 as stated fails: the start page is routed to the network-first strategy with
  the static cache, the fetch answers with status 200 and no error type, and the
  response has a \<^verbatim>\<open>Vary\<close> header with the value \<^verbatim>\<open>*\<close>; the strategy returns the
  response, \<^verbatim>\<open>cache.put\<close> rejects the write, and the static cache holds no entry.
\<close>

theorem networkFirst_vary_star_counterexample:
  "route ex_net_vary ex_page = Some (NetworkFirst, STATIC_ASSETS_CACHE) \<and>
   net ex_net_vary (href (url ex_page)) = Resolved (Some ex_vary_star) \<and>
   status ex_vary_star = 200 \<and> rtype ex_vary_star \<noteq> Error \<and>
   fst (networkFirstStrategy ex_net_vary ex_page STATIC_ASSETS_CACHE (ex_worker []))
     = Inr (Some ex_vary_star) \<and>
   store_named STATIC_ASSETS_CACHE
     (caches (snd (networkFirstStrategy ex_net_vary ex_page STATIC_ASSETS_CACHE (ex_worker []))))
     = Some []"
  by (simp add: route_def is_api_def is_cdn_def is_static_asset_def endsWith_def
      ex_net_vary_def ex_page_def ex_vary_star_def ex_worker_def networkFirstStrategy_def
      Let_def fetch_log_def open_and_put_def put_rejects_def put_url_rejects_def
      request_unstorable_def response_unstorable_def vary_star_def header_values_def
      lower_def lower_char_def trim_def is_space_def caches_open_def caches_keys_def
      store_named_def STATIC_ASSETS_CACHE_def CACHE_VERSION_def)

text \<open>
  Claim C7, as the code has it. For a document request whose fetch fails and whose key
  is in no cache of the storage, the network-first strategy returns the stored
  \<^verbatim>\<open>./index.html\<close> when some cache holds it, and otherwise the offline page: a
  response of status 503, of content type HTML, whose body says that the application is
  offline.
\<close>

theorem networkFirst_document_offline:
  assumes "destination req = ''document''"
    and "net e (href (url req)) = Rejected err"
    and "caches_match (href (url req)) (caches w) = None"
  shows "fst (networkFirstStrategy e req storeName w) =
           Inr (Some (case caches_match (resolve e ''./index.html'') (caches w) of
                        Some indexResponse \<Rightarrow> indexResponse
                      | None \<Rightarrow> offline_html)) \<and>
         status offline_html = 503 \<and>
         map_of (headers offline_html) ''Content-Type'' = Some ''text/html; charset=utf-8'' \<and>
         includes_str (body offline_html) ''offline''"
proof -
  have "fst (networkFirstStrategy e req storeName w) =
           Inr (Some (case caches_match (resolve e ''./index.html'') (caches w) of
                        Some indexResponse \<Rightarrow> indexResponse
                      | None \<Rightarrow> offline_html))"
    using assms
    by (simp add: networkFirstStrategy_def Let_def fetch_log_def split: option.splits)
  moreover have "status offline_html = 503"
    by (simp add: offline_html_def new_Response_def)
  moreover have "map_of (headers offline_html) ''Content-Type'' = Some ''text/html; charset=utf-8''"
    by (simp add: offline_html_def new_Response_def)
  moreover have "includes_str (body offline_html) ''offline''"
    by (simp add: offline_html_def new_Response_def)
  ultimately show ?thesis by simp
qed

text \<open>
  At the start page with the network down: with an empty storage, and with a storage
  whose static cache holds \<^verbatim>\<open>index.html\<close>.
\<close>

theorem networkFirst_document_offline_witness:
  "fst (networkFirstStrategy ex_offline ex_page STATIC_ASSETS_CACHE (ex_worker []))
     = Inr (Some offline_html) \<and>
   fst (networkFirstStrategy ex_offline ex_page STATIC_ASSETS_CACHE (ex_worker ex_with_index))
     = Inr (Some ex_cached)"
  using networkFirst_document_offline [of ex_page ex_offline "TypeError ''Failed to fetch''"
      "ex_worker []" STATIC_ASSETS_CACHE]
    networkFirst_document_offline [of ex_page ex_offline "TypeError ''Failed to fetch''"
      "ex_worker ex_with_index" STATIC_ASSETS_CACHE]
  by (simp add: ex_page_def ex_offline_def ex_worker_def ex_with_index_def cache_match_def
      ex_resolve_def)

text \<open>
  Claim C7 as stated fails: the key of the page is not in the named cache and no
  \<^verbatim>\<open>index.html\<close> is stored, yet the answer is neither a fallback document nor a
  503 page but the entry that a cache of another name holds for the key.
\<close>

theorem networkFirst_document_other_store_counterexample:
  "destination ex_page = ''document'' \<and>
   net ex_offline (href (url ex_page)) = Rejected (TypeError ''Failed to fetch'') \<and>
   store_named STATIC_ASSETS_CACHE (caches (ex_worker ex_foreign_page)) = Some [] \<and>
   caches_match (resolve ex_offline ''./index.html'') (caches (ex_worker ex_foreign_page)) = None \<and>
   fst (networkFirstStrategy ex_offline ex_page STATIC_ASSETS_CACHE (ex_worker ex_foreign_page))
     = Inr (Some ex_foreign) \<and>
   status ex_foreign \<noteq> 503"
  by (simp add: ex_page_def ex_offline_def ex_worker_def ex_foreign_page_def cache_match_def
      ex_resolve_def store_named_def STATIC_ASSETS_CACHE_def CACHE_VERSION_def
      networkFirstStrategy_def Let_def fetch_log_def ex_foreign_def)

section \<open>The fetch handler tests for an API request first\<close>

text \<open>
  Claim C6. A GET request over http or https whose host is the API host, whose path
  contains \<^verbatim>\<open>/api/\<close> or whose host name contains \<^verbatim>\<open>api.\<close> is routed to the
  network-first strategy with the API cache, whatever the later tests of the handler
  would say of it.
\<close>

theorem api_routed_first:
  assumes "req_method req = ''GET''"
    and "protocol (url req) = ''http:'' \<or> protocol (url req) = ''https:''"
    and "hostname (url req) = ''generativelanguage.googleapis.com'' \<or>
         includes_str (pathname (url req)) ''/api/'' \<or>
         includes_str (hostname (url req)) ''api.''"
  shows "route e req = Some (NetworkFirst, API_CACHE)"
  using assms by (auto simp: route_def is_api_def)

text \<open>
  At an image on a CDN host whose path has an API segment: it passes the test for a CDN
  host and the test for a static asset, and is routed as an API request.
\<close>

theorem api_routed_first_witness:
  "is_cdn (url ex_cdn_api) \<and> is_static_asset ex_cdn_api \<and>
   route ex_online ex_cdn_api = Some (NetworkFirst, API_CACHE)"
  using api_routed_first [of ex_cdn_api ex_online]
  by (simp add: ex_cdn_api_def is_cdn_def is_static_asset_def)

section \<open>The lifecycle\<close>

lemma skipWaiting_flag: "skip_waiting_flag (skipWaiting w)"
  by (simp add: skipWaiting_def try_activate_def)

lemma install_settled_phase:
  "phase (install_settled w) = (if skip_waiting_flag w then Activating else Waiting)"
  by (simp add: install_settled_def try_activate_def)

lemma install_event_phase: "phase (install_event e w) = Activating"
  by (simp add: install_event_def Let_def install_settled_phase skipWaiting_flag)

lemma message_skip_waiting:
  "phase w = Waiting \<Longrightarrow> phase (message_event (Some ''SKIP_WAITING'') w) = Activating"
  by (simp add: message_event_def Let_def skipWaiting_def try_activate_def)

text \<open>
  Claim C8, as the code has it. The install handler calls \<^verbatim>\<open>self.skipWaiting()\<close>
  itself once the caches are populated, so the worker is activating when the
  installation has completed, with no command from outside; a \<^verbatim>\<open>SKIP_WAITING\<close>
  message forces a waiting worker to activate as well.
\<close>

theorem install_forces_activation:
  "phase (install_event e w) = Activating \<and>
   (phase w = Waiting \<longrightarrow> phase (message_event (Some ''SKIP_WAITING'') w) = Activating)"
  by (simp add: install_event_phase message_skip_waiting)

text \<open>At a worker that installs with the network down, and at a worker that waits.\<close>

theorem install_forces_activation_witness:
  "phase (install_event ex_offline (ex_worker [])) = Activating \<and>
   phase ex_waiting = Waiting \<and>
   phase (message_event (Some ''SKIP_WAITING'') ex_waiting) = Activating"
  using install_forces_activation [of ex_offline "ex_worker []"]
    install_forces_activation [of ex_offline ex_waiting]
  by (simp add: ex_waiting_def)

text \<open>
  Claim C8 as stated fails: a worker that starts to install with the skip-waiting flag
  not set, and that receives no message, is activating after the install handler.
\<close>

theorem install_without_signal_counterexample:
  "phase (ex_worker []) = Installing \<and>
   \<not> skip_waiting_flag (ex_worker []) \<and>
   phase (install_event ex_offline (ex_worker [])) = Activating"
  by (simp add: ex_worker_def install_event_phase)

end
